theory Spec2Isabelle
  imports Complex_Main
begin

section \<open>Values, documents and the store\<close>

text \<open>
  The component (\<^verbatim>\<open>src/component/public.ts\<close>) reads and writes six tables of a document
  database. A document is a JavaScript object: a finite map from field names to values.
  Besides the fields of the schema (\<^verbatim>\<open>src/component/schema.ts\<close>) every stored document
  carries the two system fields \<^verbatim>\<open>_id\<close> and \<^verbatim>\<open>_creationTime\<close>.

  Numbers (\<^verbatim>\<open>v.number()\<close>) are only stored and handed back by this code, never computed
  with, so they are kept as reals. \<^verbatim>\<open>v.any()\<close> metadata is an arbitrary value.
\<close>

datatype jsvalue =
    VNull
  | VBool bool
  | VNum real
  | VStr string
  | VId nat
  | VArr "jsvalue list"
  | VObj "(string \<times> jsvalue) list"

type_synonym doc = "string \<rightharpoonup> jsvalue"

text \<open>An object literal whose property may be \<^verbatim>\<open>undefined\<close>: \<open>None\<close> is \<^verbatim>\<open>undefined\<close>.\<close>

type_synonym fields = "(string \<times> jsvalue option) list"

datatype error =
    Error string
  | NotUnique
  | StripeError string

record store =
  products :: "doc list"
  prices :: "doc list"
  customers :: "doc list"
  subscriptions :: "doc list"
  checkout_sessions :: "doc list"
  payments :: "doc list"
  invoices :: "doc list"
  nextId :: nat

text \<open>
  Each table is the list of its documents in creation order, which is the order in which
  \<^verbatim>\<open>collect()\<close> yields them, both for a full scan and for an index range with one
  equality (ties of an index key are broken by creation time). \<open>nextId\<close> is the source of
  fresh document ids.
\<close>

subsection \<open>The database interface used by the handlers\<close>

text \<open>
  \<^verbatim>\<open>ctx.db\<close> belongs to the platform, not to this component. Its operations are modelled
  as the platform documents them, as far as the handlers use them.
\<close>

text \<open>\<^verbatim>\<open>.withIndex(name, q => q.eq(field, v))\<close>: the documents whose field equals \<open>v\<close>.\<close>

definition withIndex_eq :: "string \<Rightarrow> jsvalue \<Rightarrow> doc list \<Rightarrow> doc list" where
  "withIndex_eq field v tbl = filter (\<lambda>d. d field = Some v) tbl"

text \<open>\<^verbatim>\<open>.unique()\<close>: \<^verbatim>\<open>null\<close> for no result, the document for one, an exception for more.\<close>

fun unique :: "doc list \<Rightarrow> error + doc option" where
  "unique [] = Inr None"
| "unique [d] = Inr (Some d)"
| "unique (d # e # ds) = Inl NotUnique"

text \<open>\<^verbatim>\<open>.first()\<close>: the first result or \<^verbatim>\<open>null\<close>.\<close>

fun first :: "doc list \<Rightarrow> doc option" where
  "first [] = None"
| "first (d # ds) = Some d"

text \<open>
  Shallow merge of an object literal into a document, as \<^verbatim>\<open>db.patch\<close> does it: a property
  with a value is added or overwritten, a property that is \<^verbatim>\<open>undefined\<close> is removed.
\<close>

fun patch_doc :: "doc \<Rightarrow> fields \<Rightarrow> doc" where
  "patch_doc d [] = d"
| "patch_doc d ((k, v) # fs) = patch_doc (d(k := v)) fs"

text \<open>\<^verbatim>\<open>db.patch(id, value)\<close>: the document with that \<^verbatim>\<open>_id\<close> is merged with \<open>value\<close>.\<close>

definition db_patch :: "doc list \<Rightarrow> jsvalue option \<Rightarrow> fields \<Rightarrow> doc list" where
  "db_patch tbl i fs = map (\<lambda>d. if d ''_id'' = i then patch_doc d fs else d) tbl"

text \<open>
  \<^verbatim>\<open>db.insert(table, value)\<close>: the new document holds the defined properties of
  \<open>value\<close> and the two system fields; it is the newest document of its table.
\<close>

definition new_doc :: "real \<Rightarrow> nat \<Rightarrow> fields \<Rightarrow> doc" where
  "new_doc now i fs = (patch_doc Map.empty fs)(''_id'' \<mapsto> VId i, ''_creationTime'' \<mapsto> VNum now)"

definition db_insert :: "real \<Rightarrow> nat \<Rightarrow> doc list \<Rightarrow> fields \<Rightarrow> doc list" where
  "db_insert now i tbl fs = tbl @ [new_doc now i fs]"

text \<open>
  \<^verbatim>\<open>const { _id, _creationTime, ...data } = document\<close>: the rest object \<open>data\<close> has every
  property of the document but the two named ones.
\<close>

definition strip :: "doc \<Rightarrow> doc" where
  "strip d = d(''_id'' := None, ''_creationTime'' := None)"

text \<open>
  JavaScript truthiness of a property read (\<^verbatim>\<open>price.active\<close> as a filter predicate). The
  only falsy number among the reals is zero.
\<close>

fun truthy :: "jsvalue option \<Rightarrow> bool" where
  "truthy None = False"
| "truthy (Some VNull) = False"
| "truthy (Some (VBool b)) = b"
| "truthy (Some (VNum x)) = (x \<noteq> 0)"
| "truthy (Some (VStr s)) = (s \<noteq> [])"
| "truthy (Some (VId i)) = True"
| "truthy (Some (VArr xs)) = True"
| "truthy (Some (VObj kvs)) = True"

section \<open>Public queries\<close>

text \<open>
  A query reads the store and returns plain objects. A point lookup through
  \<^verbatim>\<open>.unique()\<close> can throw, so it returns \<open>error + doc option\<close>, where \<open>Inr None\<close> is
  \<^verbatim>\<open>null\<close>; a listing cannot. Argument and return validators are types here: the
  documents of a table satisfy the schema of that table.
\<close>

subsection \<open>Products\<close>

definition getProduct :: "store \<Rightarrow> string \<Rightarrow> error + doc option" where
  "getProduct s stripeProductId =
     (case unique (withIndex_eq ''stripeProductId'' (VStr stripeProductId) (products s)) of
        Inl e \<Rightarrow> Inl e
      | Inr None \<Rightarrow> Inr None
      | Inr (Some product) \<Rightarrow> Inr (Some (strip product)))"

definition listProducts :: "store \<Rightarrow> doc list" where
  "listProducts s = map strip (products s)"

definition listActiveProducts :: "store \<Rightarrow> doc list" where
  "listActiveProducts s = map strip (withIndex_eq ''active'' (VBool True) (products s))"

subsection \<open>Prices\<close>

definition getPrice :: "store \<Rightarrow> string \<Rightarrow> error + doc option" where
  "getPrice s stripePriceId =
     (case unique (withIndex_eq ''stripePriceId'' (VStr stripePriceId) (prices s)) of
        Inl e \<Rightarrow> Inl e
      | Inr None \<Rightarrow> Inr None
      | Inr (Some price) \<Rightarrow> Inr (Some (strip price)))"

definition listPrices :: "store \<Rightarrow> doc list" where
  "listPrices s = map strip (prices s)"

definition listActivePrices :: "store \<Rightarrow> doc list" where
  "listActivePrices s = map strip (withIndex_eq ''active'' (VBool True) (prices s))"

definition listPricesByProduct :: "store \<Rightarrow> string \<Rightarrow> doc list" where
  "listPricesByProduct s stripeProductId =
     map strip (withIndex_eq ''stripeProductId'' (VStr stripeProductId) (prices s))"

definition listActivePricesByProduct :: "store \<Rightarrow> string \<Rightarrow> doc list" where
  "listActivePricesByProduct s stripeProductId =
     map strip (filter (\<lambda>price. truthy (price ''active''))
                  (withIndex_eq ''stripeProductId'' (VStr stripeProductId) (prices s)))"

definition getPriceByLookupKey :: "store \<Rightarrow> string \<Rightarrow> error + doc option" where
  "getPriceByLookupKey s lookupKey =
     (case unique (withIndex_eq ''lookupKey'' (VStr lookupKey) (prices s)) of
        Inl e \<Rightarrow> Inl e
      | Inr None \<Rightarrow> Inr None
      | Inr (Some price) \<Rightarrow> Inr (Some (strip price)))"

text \<open>The returned object \<^verbatim>\<open>{ product, prices }\<close> is the pair of its two properties.\<close>

definition getProductWithPrices :: "store \<Rightarrow> string \<Rightarrow> error + (doc \<times> doc list) option" where
  "getProductWithPrices s stripeProductId =
     (case unique (withIndex_eq ''stripeProductId'' (VStr stripeProductId) (products s)) of
        Inl e \<Rightarrow> Inl e
      | Inr None \<Rightarrow> Inr None
      | Inr (Some product) \<Rightarrow>
          Inr (Some (strip product,
                     map strip (withIndex_eq ''stripeProductId'' (VStr stripeProductId) (prices s)))))"

subsection \<open>Customers and subscriptions\<close>

definition getCustomer :: "store \<Rightarrow> string \<Rightarrow> error + doc option" where
  "getCustomer s stripeCustomerId =
     (case unique (withIndex_eq ''stripeCustomerId'' (VStr stripeCustomerId) (customers s)) of
        Inl e \<Rightarrow> Inl e
      | Inr None \<Rightarrow> Inr None
      | Inr (Some customer) \<Rightarrow> Inr (Some (strip customer)))"

definition getSubscription :: "store \<Rightarrow> string \<Rightarrow> error + doc option" where
  "getSubscription s stripeSubscriptionId =
     (case unique (withIndex_eq ''stripeSubscriptionId'' (VStr stripeSubscriptionId)
                     (subscriptions s)) of
        Inl e \<Rightarrow> Inl e
      | Inr None \<Rightarrow> Inr None
      | Inr (Some subscription) \<Rightarrow> Inr (Some (strip subscription)))"

definition listSubscriptions :: "store \<Rightarrow> string \<Rightarrow> doc list" where
  "listSubscriptions s stripeCustomerId =
     map strip (withIndex_eq ''stripeCustomerId'' (VStr stripeCustomerId) (subscriptions s))"

definition getSubscriptionByOrgId :: "store \<Rightarrow> string \<Rightarrow> doc option" where
  "getSubscriptionByOrgId s orgId =
     (case first (withIndex_eq ''orgId'' (VStr orgId) (subscriptions s)) of
        None \<Rightarrow> None
      | Some subscription \<Rightarrow> Some (strip subscription))"

definition listSubscriptionsByUserId :: "store \<Rightarrow> string \<Rightarrow> doc list" where
  "listSubscriptionsByUserId s userId =
     map strip (withIndex_eq ''userId'' (VStr userId) (subscriptions s))"

subsection \<open>Payments and invoices\<close>

definition getPayment :: "store \<Rightarrow> string \<Rightarrow> error + doc option" where
  "getPayment s stripePaymentIntentId =
     (case unique (withIndex_eq ''stripePaymentIntentId'' (VStr stripePaymentIntentId)
                     (payments s)) of
        Inl e \<Rightarrow> Inl e
      | Inr None \<Rightarrow> Inr None
      | Inr (Some payment) \<Rightarrow> Inr (Some (strip payment)))"

definition listPayments :: "store \<Rightarrow> string \<Rightarrow> doc list" where
  "listPayments s stripeCustomerId =
     map strip (withIndex_eq ''stripeCustomerId'' (VStr stripeCustomerId) (payments s))"

definition listPaymentsByUserId :: "store \<Rightarrow> string \<Rightarrow> doc list" where
  "listPaymentsByUserId s userId =
     map strip (withIndex_eq ''userId'' (VStr userId) (payments s))"

definition listPaymentsByOrgId :: "store \<Rightarrow> string \<Rightarrow> doc list" where
  "listPaymentsByOrgId s orgId =
     map strip (withIndex_eq ''orgId'' (VStr orgId) (payments s))"

definition listInvoices :: "store \<Rightarrow> string \<Rightarrow> doc list" where
  "listInvoices s stripeCustomerId =
     map strip (withIndex_eq ''stripeCustomerId'' (VStr stripeCustomerId) (invoices s))"

definition listInvoicesByOrgId :: "store \<Rightarrow> string \<Rightarrow> doc list" where
  "listInvoicesByOrgId s orgId =
     map strip (withIndex_eq ''orgId'' (VStr orgId) (invoices s))"

definition listInvoicesByUserId :: "store \<Rightarrow> string \<Rightarrow> doc list" where
  "listInvoicesByUserId s userId =
     map strip (withIndex_eq ''userId'' (VStr userId) (invoices s))"

section \<open>Public mutations\<close>

text \<open>
  A mutation is a transaction: it returns its result and the store it leaves, and a
  mutation that throws leaves the store as it found it. \<open>now\<close> is the creation time the
  database gives to a document inserted by this call.
\<close>

definition createOrUpdateCustomer ::
  "real \<Rightarrow> store \<Rightarrow> string \<Rightarrow> string option \<Rightarrow> string option \<Rightarrow> jsvalue option
    \<Rightarrow> (error + string) \<times> store" where
  "createOrUpdateCustomer now s stripeCustomerId email name metadata =
     (case unique (withIndex_eq ''stripeCustomerId'' (VStr stripeCustomerId) (customers s)) of
        Inl e \<Rightarrow> (Inl e, s)
      | Inr (Some existing) \<Rightarrow>
          (Inr stripeCustomerId,
           s\<lparr>customers := db_patch (customers s) (existing ''_id'')
                [(''email'', map_option VStr email),
                 (''name'', map_option VStr name),
                 (''metadata'', metadata)]\<rparr>)
      | Inr None \<Rightarrow>
          (Inr stripeCustomerId,
           s\<lparr>customers := db_insert now (nextId s) (customers s)
                [(''stripeCustomerId'', Some (VStr stripeCustomerId)),
                 (''email'', map_option VStr email),
                 (''name'', map_option VStr name),
                 (''metadata'', metadata)],
             nextId := Suc (nextId s)\<rparr>))"

definition updateSubscriptionMetadata ::
  "store \<Rightarrow> string \<Rightarrow> jsvalue \<Rightarrow> string option \<Rightarrow> string option
    \<Rightarrow> (error + jsvalue) \<times> store" where
  "updateSubscriptionMetadata s stripeSubscriptionId metadata orgId userId =
     (case unique (withIndex_eq ''stripeSubscriptionId'' (VStr stripeSubscriptionId)
                     (subscriptions s)) of
        Inl e \<Rightarrow> (Inl e, s)
      | Inr None \<Rightarrow>
          (Inl (Error (''Subscription '' @ stripeSubscriptionId @ '' not found in database'')), s)
      | Inr (Some subscription) \<Rightarrow>
          (Inr VNull,
           s\<lparr>subscriptions := db_patch (subscriptions s) (subscription ''_id'')
                [(''metadata'', Some metadata),
                 (''orgId'', map_option VStr orgId),
                 (''userId'', map_option VStr userId)]\<rparr>))"

section \<open>The public action\<close>

text \<open>
  \<open>updateSubscriptionQuantity\<close> is an action: it is not a transaction, it calls the
  payment provider through its SDK and then runs a mutation of the component. The model
  records each call it makes, in order, and returns this trace with the result and the
  store it leaves.

  The SDK and the mutation \<^verbatim>\<open>api.private.updateSubscriptionQuantityInternal\<close> are
  parameters: \<open>StripeSDK apiKey\<close> is the client built from the key, whose
  \<open>subscriptions_retrieve\<close> yields the ids of \<^verbatim>\<open>subscription.items.data\<close> or throws, and
  whose \<open>subscriptionItems_update\<close> succeeds or throws. The mutation is a transaction:
  it yields the new store, or throws and leaves the store as it was.
\<close>

record stripe_sdk =
  subscriptions_retrieve :: "string \<Rightarrow> error + string list"
  subscriptionItems_update :: "string \<Rightarrow> real \<Rightarrow> error + unit"

datatype effect =
    Retrieve string
  | ItemUpdate string real
  | RunMutation string real

definition updateSubscriptionQuantity ::
  "(string \<Rightarrow> stripe_sdk) \<Rightarrow> (store \<Rightarrow> string \<Rightarrow> real \<Rightarrow> error + store) \<Rightarrow> string option
    \<Rightarrow> store \<Rightarrow> string \<Rightarrow> real \<Rightarrow> effect list \<times> (error + jsvalue) \<times> store" where
  "updateSubscriptionQuantity StripeSDK updateSubscriptionQuantityInternal STRIPE_SECRET_KEY
       db stripeSubscriptionId quantity =
     (case STRIPE_SECRET_KEY of
        None \<Rightarrow>
          ([], Inl (Error ''STRIPE_SECRET_KEY must be provided as an environment variable''), db)
      | Some apiKey \<Rightarrow>
          if apiKey = [] then
            ([], Inl (Error ''STRIPE_SECRET_KEY must be provided as an environment variable''), db)
          else
            (case subscriptions_retrieve (StripeSDK apiKey) stripeSubscriptionId of
               Inl e \<Rightarrow> ([Retrieve stripeSubscriptionId], Inl e, db)
             | Inr [] \<Rightarrow>
                 ([Retrieve stripeSubscriptionId], Inl (Error ''Subscription has no items''), db)
             | Inr (item # items) \<Rightarrow>
                 (case subscriptionItems_update (StripeSDK apiKey) item quantity of
                    Inl e \<Rightarrow>
                      ([Retrieve stripeSubscriptionId, ItemUpdate item quantity], Inl e, db)
                  | Inr u \<Rightarrow>
                      (case updateSubscriptionQuantityInternal db stripeSubscriptionId quantity of
                         Inl e \<Rightarrow>
                           ([Retrieve stripeSubscriptionId, ItemUpdate item quantity,
                             RunMutation stripeSubscriptionId quantity], Inl e, db)
                       | Inr db' \<Rightarrow>
                           ([Retrieve stripeSubscriptionId, ItemUpdate item quantity,
                             RunMutation stripeSubscriptionId quantity], Inr VNull, db')))))"

section \<open>Operations outside the given sources\<close>

text \<open>
  Modelled from the spec: the handler of a \<^verbatim>\<open>product.deleted\<close> event, which lives in
  \<^verbatim>\<open>src/component/private.ts\<close> and the client's webhook route, neither of which is
  among the sources. The spec: "\<^verbatim>\<open>product.deleted\<close> sets \<^verbatim>\<open>active=false\<close> (soft delete)
  rather than removing the row". The product is found by its external id, as every
  lookup of the component does it. The spec does not say what the handler does when the
  product is not known; the model then leaves the store as it is.
\<close>

definition handleProductDeleted :: "store \<Rightarrow> string \<Rightarrow> (error + unit) \<times> store" where
  "handleProductDeleted s stripeProductId =
     (case unique (withIndex_eq ''stripeProductId'' (VStr stripeProductId) (products s)) of
        Inl e \<Rightarrow> (Inl e, s)
      | Inr None \<Rightarrow> (Inr (), s)
      | Inr (Some existing) \<Rightarrow>
          (Inr (),
           s\<lparr>products := db_patch (products s) (existing ''_id'')
                [(''active'', Some (VBool False))]\<rparr>))"

text \<open>
  Modelled from the spec: \<^verbatim>\<open>createCheckoutSession\<close> of \<^verbatim>\<open>src/client/index.ts\<close>, of
  which only the test is among the sources. The spec: "requesting a checkout session
  with both promotion-code allowance and an explicit discount list fails synchronously
  before any remote or local write occurs"; the test expects the message
  \<^verbatim>\<open>Cannot use both allowPromotionCodes and discounts\<close>. Everything the operation does
  once the options are accepted is the parameter \<open>proceed\<close>: it yields the remote calls
  and local writes made, the result and the store. \<open>allowPromotionCodes\<close> and
  \<open>discounts\<close> are optional arguments, \<open>None\<close> when left out.
\<close>

definition createCheckoutSession ::
  "(store \<Rightarrow> 'e list \<times> (error + 'a) \<times> store) \<Rightarrow> store \<Rightarrow> bool option \<Rightarrow> 'd list option
    \<Rightarrow> 'e list \<times> (error + 'a) \<times> store" where
  "createCheckoutSession proceed s allowPromotionCodes discounts =
     (if allowPromotionCodes = Some True \<and> discounts \<noteq> None
      then ([], Inl (Error ''Cannot use both allowPromotionCodes and discounts''), s)
      else proceed s)"

section \<open>Invariants of the store and notions of the specification\<close>

text \<open>
  The database gives every document of a table its own \<^verbatim>\<open>_id\<close>, drawn from \<open>nextId\<close>;
  the data model keys every customer by its \<^verbatim>\<open>stripeCustomerId\<close>.
\<close>

definition id_below :: "nat \<Rightarrow> doc \<Rightarrow> bool" where
  "id_below n d = (case d ''_id'' of Some (VId i) \<Rightarrow> i < n | _ \<Rightarrow> False)"

definition customers_wf :: "store \<Rightarrow> bool" where
  "customers_wf s \<longleftrightarrow>
     distinct (map (\<lambda>d. d ''_id'') (customers s))
     \<and> list_all (id_below (nextId s)) (customers s)
     \<and> distinct (map (\<lambda>d. d ''stripeCustomerId'') (customers s))"

text \<open>The schema declares \<^verbatim>\<open>active: v.boolean()\<close>: the field is present and a boolean.\<close>

definition is_boolean :: "jsvalue option \<Rightarrow> bool" where
  "is_boolean v = (case v of Some (VBool b) \<Rightarrow> True | _ \<Rightarrow> False)"

text \<open>
  A returned record \<open>r\<close> is a plain record of table \<open>tbl\<close>: it has neither system field,
  and it is a document of the table in every other field.
\<close>

definition plain_of :: "doc list \<Rightarrow> doc \<Rightarrow> bool" where
  "plain_of tbl r \<longleftrightarrow>
     ''_id'' \<notin> dom r \<and> ''_creationTime'' \<notin> dom r
     \<and> (\<exists>d\<in>set tbl. \<forall>k. k \<noteq> ''_id'' \<and> k \<noteq> ''_creationTime'' \<longrightarrow> r k = d k)"

text \<open>The object literal that \<open>createOrUpdateCustomer\<close> passes to \<^verbatim>\<open>db.patch\<close>.\<close>

definition customer_fields :: "string option \<Rightarrow> string option \<Rightarrow> jsvalue option \<Rightarrow> fields" where
  "customer_fields email name metadata =
     [(''email'', map_option VStr email), (''name'', map_option VStr name), (''metadata'', metadata)]"

section \<open>Sample data\<close>

definition sub1 :: doc where
  "sub1 = [''_id'' \<mapsto> VId 0, ''_creationTime'' \<mapsto> VNum 100,
           ''stripeSubscriptionId'' \<mapsto> VStr ''sub_1'',
           ''stripeCustomerId'' \<mapsto> VStr ''cus_1'',
           ''status'' \<mapsto> VStr ''active'',
           ''currentPeriodEnd'' \<mapsto> VNum 200,
           ''cancelAtPeriodEnd'' \<mapsto> VBool False,
           ''quantity'' \<mapsto> VNum 3,
           ''priceId'' \<mapsto> VStr ''price_1'',
           ''orgId'' \<mapsto> VStr ''org_1'',
           ''userId'' \<mapsto> VStr ''user_1'']"

definition sub2 :: doc where
  "sub2 = [''_id'' \<mapsto> VId 1, ''_creationTime'' \<mapsto> VNum 150,
           ''stripeSubscriptionId'' \<mapsto> VStr ''sub_2'',
           ''stripeCustomerId'' \<mapsto> VStr ''cus_1'',
           ''status'' \<mapsto> VStr ''canceled'',
           ''currentPeriodEnd'' \<mapsto> VNum 250,
           ''cancelAtPeriodEnd'' \<mapsto> VBool True,
           ''priceId'' \<mapsto> VStr ''price_2'',
           ''userId'' \<mapsto> VStr ''user_1'']"

definition cus1 :: doc where
  "cus1 = [''_id'' \<mapsto> VId 0, ''_creationTime'' \<mapsto> VNum 100,
           ''stripeCustomerId'' \<mapsto> VStr ''cus_1'',
           ''email'' \<mapsto> VStr ''ann@example.com'',
           ''name'' \<mapsto> VStr ''Ann'']"

definition prod1 :: doc where
  "prod1 = [''_id'' \<mapsto> VId 0, ''_creationTime'' \<mapsto> VNum 10,
            ''stripeProductId'' \<mapsto> VStr ''prod_1'',
            ''name'' \<mapsto> VStr ''Basic'',
            ''active'' \<mapsto> VBool True]"

definition prod2 :: doc where
  "prod2 = [''_id'' \<mapsto> VId 1, ''_creationTime'' \<mapsto> VNum 20,
            ''stripeProductId'' \<mapsto> VStr ''prod_2'',
            ''name'' \<mapsto> VStr ''Legacy'',
            ''active'' \<mapsto> VBool False]"

definition price1 :: doc where
  "price1 = [''_id'' \<mapsto> VId 2, ''_creationTime'' \<mapsto> VNum 30,
             ''stripePriceId'' \<mapsto> VStr ''price_1'',
             ''stripeProductId'' \<mapsto> VStr ''prod_1'',
             ''active'' \<mapsto> VBool True,
             ''currency'' \<mapsto> VStr ''usd'',
             ''type'' \<mapsto> VStr ''recurring'',
             ''unitAmount'' \<mapsto> VNum 1000]"

definition price2 :: doc where
  "price2 = [''_id'' \<mapsto> VId 3, ''_creationTime'' \<mapsto> VNum 40,
             ''stripePriceId'' \<mapsto> VStr ''price_2'',
             ''stripeProductId'' \<mapsto> VStr ''prod_1'',
             ''active'' \<mapsto> VBool False,
             ''currency'' \<mapsto> VStr ''usd'',
             ''type'' \<mapsto> VStr ''one_time'',
             ''unitAmount'' \<mapsto> VNum 500]"

definition empty_store :: store where
  "empty_store = \<lparr>products = [], prices = [], customers = [], subscriptions = [],
                   checkout_sessions = [], payments = [], invoices = [], nextId = 0\<rparr>"

definition catalogue :: store where
  "catalogue = empty_store\<lparr>products := [prod1, prod2], prices := [price1, price2], nextId := 4\<rparr>"

text \<open>Four providers: one that works, one that has no such subscription, one that
  refuses the update, and one whose subscription has no items.\<close>

definition sdk_ok :: "string \<Rightarrow> stripe_sdk" where
  "sdk_ok apiKey = \<lparr>subscriptions_retrieve = (\<lambda>i. Inr [''si_1'', ''si_2'']),
                    subscriptionItems_update = (\<lambda>i q. Inr ())\<rparr>"

definition sdk_missing :: "string \<Rightarrow> stripe_sdk" where
  "sdk_missing apiKey = \<lparr>subscriptions_retrieve = (\<lambda>i. Inl (StripeError ''No such subscription'')),
                         subscriptionItems_update = (\<lambda>i q. Inr ())\<rparr>"

definition sdk_refuses :: "string \<Rightarrow> stripe_sdk" where
  "sdk_refuses apiKey = \<lparr>subscriptions_retrieve = (\<lambda>i. Inr [''si_1'']),
                         subscriptionItems_update = (\<lambda>i q. Inl (StripeError ''Invalid quantity''))\<rparr>"

definition sdk_no_items :: "string \<Rightarrow> stripe_sdk" where
  "sdk_no_items apiKey = \<lparr>subscriptions_retrieve = (\<lambda>i. Inr []),
                          subscriptionItems_update = (\<lambda>i q. Inr ())\<rparr>"

text \<open>A stand-in for the internal mutation: it writes the quantity of the subscription.\<close>

definition set_quantity :: "store \<Rightarrow> string \<Rightarrow> real \<Rightarrow> error + store" where
  "set_quantity s stripeSubscriptionId quantity =
     (case unique (withIndex_eq ''stripeSubscriptionId'' (VStr stripeSubscriptionId)
                     (subscriptions s)) of
        Inl e \<Rightarrow> Inl e
      | Inr None \<Rightarrow> Inl (Error ''not found'')
      | Inr (Some subscription) \<Rightarrow>
          Inr (s\<lparr>subscriptions := db_patch (subscriptions s) (subscription ''_id'')
                    [(''quantity'', Some (VNum quantity))]\<rparr>))"

section \<open>Properties of the database interface\<close>

lemma filter_key_single:
  "distinct (map f xs) \<Longrightarrow> x \<in> set xs \<Longrightarrow> filter (\<lambda>d. f d = f x) xs = [x]"
proof (induction xs)
  case Nil
  then show ?case by simp
next
  case (Cons y ys)
  show ?case
  proof (cases "y = x")
    case True
    with Cons.prems have "f x \<notin> f ` set ys" by simp
    then have "\<forall>d\<in>set ys. f d \<noteq> f x" by (metis imageI)
    then have "filter (\<lambda>d. f d = f x) ys = []" by (simp add: filter_empty_conv)
    with True show ?thesis by simp
  next
    case False
    with Cons.prems have "x \<in> set ys" and "distinct (map f ys)" by auto
    moreover from Cons.prems \<open>x \<in> set ys\<close> have "f y \<noteq> f x" by (metis distinct.simps(2) imageI list.simps(9) list.set_map)
    ultimately show ?thesis using Cons.IH by simp
  qed
qed

lemma filter_single_mem: "filter P xs = [d] \<Longrightarrow> d \<in> set xs"
  using set_filter [of P xs] by auto

lemma distinct_map_eq: "distinct (map f xs) \<Longrightarrow> x \<in> set xs \<Longrightarrow> y \<in> set xs \<Longrightarrow> f x = f y \<Longrightarrow> x = y"
  by (meson distinct_map inj_onD)

lemma db_patch_distinct:
  assumes "distinct (map (\<lambda>d. d ''_id'') tbl)" and "d \<in> set tbl"
  shows "db_patch tbl (d ''_id'') fs = map (\<lambda>x. if x = d then patch_doc d fs else x) tbl"
  unfolding db_patch_def
proof (rule map_cong [OF refl])
  fix x assume "x \<in> set tbl"
  with assms have "x ''_id'' = d ''_id'' \<Longrightarrow> x = d"
    by (rule_tac distinct_map_eq [where f = "\<lambda>d. d ''_id''" and xs = tbl])
  then show "(if x ''_id'' = d ''_id'' then patch_doc x fs else x) = (if x = d then patch_doc d fs else x)"
    by auto
qed

lemma createOrUpdateCustomer_none:
  assumes "filter (\<lambda>d. d ''stripeCustomerId'' = Some (VStr cid)) (customers s) = []"
  shows "createOrUpdateCustomer now s cid email name metadata =
           (Inr cid,
            s\<lparr>customers := customers s @
                 [new_doc now (nextId s)
                    ((''stripeCustomerId'', Some (VStr cid)) # customer_fields email name metadata)],
              nextId := Suc (nextId s)\<rparr>)"
  using assms
  by (simp add: createOrUpdateCustomer_def withIndex_eq_def db_insert_def customer_fields_def)

lemma createOrUpdateCustomer_one:
  assumes "filter (\<lambda>d. d ''stripeCustomerId'' = Some (VStr cid)) (customers s) = [d]"
  shows "createOrUpdateCustomer now s cid email name metadata =
           (Inr cid,
            s\<lparr>customers := db_patch (customers s) (d ''_id'') (customer_fields email name metadata)\<rparr>)"
  using assms
  by (simp add: createOrUpdateCustomer_def withIndex_eq_def customer_fields_def)

lemma createOrUpdateCustomer_many:
  assumes "filter (\<lambda>d. d ''stripeCustomerId'' = Some (VStr cid)) (customers s) = d # e # ds"
  shows "createOrUpdateCustomer now s cid email name metadata = (Inl NotUnique, s)"
  using assms
  by (simp add: createOrUpdateCustomer_def withIndex_eq_def)

lemma patch_customer_fields:
  "patch_doc d (customer_fields email name metadata) =
     d(''email'' := map_option VStr email, ''name'' := map_option VStr name, ''metadata'' := metadata)"
  by (simp add: customer_fields_def)

lemma patch_customer_fields_idem:
  "patch_doc (patch_doc d (customer_fields email name metadata)) (customer_fields email name metadata)
     = patch_doc d (customer_fields email name metadata)"
  unfolding patch_customer_fields by (rule ext) simp

lemma new_customer_patch:
  "patch_doc (new_doc now i ((''stripeCustomerId'', Some (VStr cid)) # customer_fields email name metadata))
      (customer_fields email name metadata)
   = new_doc now i ((''stripeCustomerId'', Some (VStr cid)) # customer_fields email name metadata)"
  unfolding patch_customer_fields new_doc_def by (rule ext) (simp add: customer_fields_def)

lemma new_customer_key:
  "new_doc now i ((''stripeCustomerId'', Some (VStr cid)) # customer_fields email name metadata) ''stripeCustomerId''
     = Some (VStr cid)"
  by (simp add: new_doc_def customer_fields_def)

lemma new_doc_id: "new_doc now i fs ''_id'' = Some (VId i)"
  by (simp add: new_doc_def)

lemma db_patch_fresh:
  assumes "\<forall>d\<in>set tbl. d ''_id'' \<noteq> i"
  shows "db_patch tbl i fs = tbl"
  unfolding db_patch_def using assms by (simp add: map_idI)

lemma db_patch_append: "db_patch (xs @ ys) i fs = db_patch xs i fs @ db_patch ys i fs"
  by (simp add: db_patch_def)

lemma filter_db_patch_customers:
  "filter (\<lambda>d. d ''stripeCustomerId'' = v) (db_patch tbl i (customer_fields email name metadata))
     = db_patch (filter (\<lambda>d. d ''stripeCustomerId'' = v) tbl) i (customer_fields email name metadata)"
  unfolding db_patch_def filter_map
  by (rule arg_cong [where f = "map _"], rule filter_cong [OF refl])
     (simp add: patch_customer_fields)

lemma patch_customer_fields_id:
  "patch_doc d (customer_fields email name metadata) ''_id'' = d ''_id''"
  by (simp add: patch_customer_fields)

lemma db_patch_idem_customers:
  "db_patch (db_patch tbl i (customer_fields email name metadata)) i (customer_fields email name metadata)
     = db_patch tbl i (customer_fields email name metadata)"
  unfolding db_patch_def map_map
  by (rule map_cong [OF refl])
     (simp add: patch_customer_fields_idem patch_customer_fields_id)

lemma createOrUpdateCustomer_twice:
  assumes fresh: "\<forall>d\<in>set (customers s). d ''_id'' \<noteq> Some (VId (nextId s))"
  shows "createOrUpdateCustomer now' (snd (createOrUpdateCustomer now s cid email name metadata))
            cid email name metadata
         = (fst (createOrUpdateCustomer now s cid email name metadata),
            snd (createOrUpdateCustomer now s cid email name metadata))"
proof (cases "filter (\<lambda>d. d ''stripeCustomerId'' = Some (VStr cid)) (customers s)")
  case Nil
  let ?nd = "new_doc now (nextId s)
               ((''stripeCustomerId'', Some (VStr cid)) # customer_fields email name metadata)"
  let ?s1 = "s\<lparr>customers := customers s @ [?nd], nextId := Suc (nextId s)\<rparr>"
  have first: "createOrUpdateCustomer now s cid email name metadata = (Inr cid, ?s1)"
    by (rule createOrUpdateCustomer_none [OF Nil])
  have "filter (\<lambda>d. d ''stripeCustomerId'' = Some (VStr cid)) (customers ?s1) = [?nd]"
    by (simp add: Nil new_customer_key)
  then have "createOrUpdateCustomer now' ?s1 cid email name metadata =
               (Inr cid, ?s1\<lparr>customers := db_patch (customers ?s1) (?nd ''_id'')
                                    (customer_fields email name metadata)\<rparr>)"
    by (rule createOrUpdateCustomer_one)
  moreover have "db_patch (customers ?s1) (?nd ''_id'') (customer_fields email name metadata)
                   = customers ?s1"
    using fresh
    by (simp add: db_patch_append db_patch_fresh new_doc_id)
       (simp add: db_patch_def new_doc_id new_customer_patch)
  ultimately show ?thesis by (simp add: first)
next
  case (Cons d ds)
  note outer = Cons
  show ?thesis
  proof (cases ds)
    case Nil
    let ?s1 = "s\<lparr>customers := db_patch (customers s) (d ''_id'')
                                  (customer_fields email name metadata)\<rparr>"
    from outer Nil have one: "filter (\<lambda>d. d ''stripeCustomerId'' = Some (VStr cid)) (customers s) = [d]"
      by simp
    have first: "createOrUpdateCustomer now s cid email name metadata = (Inr cid, ?s1)"
      by (rule createOrUpdateCustomer_one [OF one])
    have "filter (\<lambda>d. d ''stripeCustomerId'' = Some (VStr cid)) (customers ?s1)
            = [patch_doc d (customer_fields email name metadata)]"
      by (simp add: filter_db_patch_customers one) (simp add: db_patch_def)
    then have "createOrUpdateCustomer now' ?s1 cid email name metadata =
                 (Inr cid, ?s1\<lparr>customers := db_patch (customers ?s1)
                      (patch_doc d (customer_fields email name metadata) ''_id'')
                      (customer_fields email name metadata)\<rparr>)"
      by (rule createOrUpdateCustomer_one)
    then show ?thesis
      by (simp add: first patch_customer_fields_id db_patch_idem_customers)
  next
    case (Cons e es)
    with outer have "createOrUpdateCustomer now s cid email name metadata = (Inl NotUnique, s)"
      by (simp add: createOrUpdateCustomer_many)
    moreover from Cons outer have "createOrUpdateCustomer now' s cid email name metadata = (Inl NotUnique, s)"
      by (simp add: createOrUpdateCustomer_many)
    ultimately show ?thesis by simp
  qed
qed

lemma id_below_fresh:
  assumes "list_all (id_below n) tbl"
  shows "\<forall>d\<in>set tbl. d ''_id'' \<noteq> Some (VId n)"
proof
  fix d assume "d \<in> set tbl"
  with assms have "id_below n d" by (simp add: list_all_iff)
  then show "d ''_id'' \<noteq> Some (VId n)" by (auto simp: id_below_def split: option.splits jsvalue.splits)
qed

lemma id_below_new_doc: "id_below (Suc i) (new_doc now i fs)"
  by (simp add: id_below_def new_doc_id)

lemma id_below_mono: "id_below n d \<Longrightarrow> id_below (Suc n) d"
  by (auto simp: id_below_def split: option.splits jsvalue.splits)

lemma map_id_db_patch_customers:
  "map (\<lambda>d. d ''_id'') (db_patch tbl i (customer_fields email name metadata)) = map (\<lambda>d. d ''_id'') tbl"
  unfolding db_patch_def map_map
  by (rule map_cong [OF refl]) (simp add: patch_customer_fields_id)

lemma map_key_db_patch_customers:
  "map (\<lambda>d. d ''stripeCustomerId'') (db_patch tbl i (customer_fields email name metadata))
     = map (\<lambda>d. d ''stripeCustomerId'') tbl"
  unfolding db_patch_def map_map
  by (rule map_cong [OF refl]) (simp add: patch_customer_fields)

lemma id_below_db_patch_customers:
  "list_all (id_below n) (db_patch tbl i (customer_fields email name metadata)) = list_all (id_below n) tbl"
proof -
  have "list_all (id_below n) tbl' \<longleftrightarrow>
          list_all (\<lambda>v. case v of Some (VId i) \<Rightarrow> i < n | _ \<Rightarrow> False) (map (\<lambda>d. d ''_id'') tbl')"
    for tbl'
    by (simp add: list_all_iff id_below_def)
  then show ?thesis by (simp only: map_id_db_patch_customers)
qed

lemma customers_wf_createOrUpdateCustomer:
  assumes wf: "customers_wf s"
  shows "customers_wf (snd (createOrUpdateCustomer now s cid email name metadata))"
proof (cases "filter (\<lambda>d. d ''stripeCustomerId'' = Some (VStr cid)) (customers s)")
  case Nil
  then have nokey: "\<forall>d\<in>set (customers s). d ''stripeCustomerId'' \<noteq> Some (VStr cid)"
    by (simp add: filter_empty_conv)
  from wf have fresh: "\<forall>d\<in>set (customers s). d ''_id'' \<noteq> Some (VId (nextId s))"
    by (intro id_below_fresh) (simp add: customers_wf_def)
  have "list_all (id_below (Suc (nextId s))) (customers s)"
    using wf by (simp add: customers_wf_def list_all_iff id_below_mono)
  with wf nokey fresh show ?thesis
    unfolding createOrUpdateCustomer_none [OF Nil]
    by (auto simp: customers_wf_def new_doc_id new_customer_key id_below_new_doc)
next
  case (Cons d ds)
  show ?thesis
  proof (cases ds)
    case Nil
    with Cons have one: "filter (\<lambda>d. d ''stripeCustomerId'' = Some (VStr cid)) (customers s) = [d]"
      by simp
    from wf show ?thesis
      unfolding createOrUpdateCustomer_one [OF one]
      by (simp add: customers_wf_def map_id_db_patch_customers map_key_db_patch_customers
            id_below_db_patch_customers)
  next
    case (Cons e es)
    with \<open>filter _ _ = d # ds\<close> wf show ?thesis
      by (simp add: createOrUpdateCustomer_many)
  qed
qed

lemma sub2_neq_sub1: "sub2 \<noteq> sub1"
proof
  assume "sub2 = sub1"
  then have "sub2 ''_id'' = sub1 ''_id''" by simp
  then show False by (simp add: sub1_def sub2_def)
qed

lemma strip_field: "k \<noteq> ''_id'' \<Longrightarrow> k \<noteq> ''_creationTime'' \<Longrightarrow> strip d k = d k"
  by (simp add: strip_def)

lemma strip_active: "strip d ''active'' = d ''active''"
  by (simp add: strip_def)

lemma plain_of_strip: "d \<in> set tbl \<Longrightarrow> plain_of tbl (strip d)"
  unfolding plain_of_def
  by (rule conjI, simp add: strip_def, rule conjI, simp add: strip_def)
     (rule bexI [where x = d], simp_all add: strip_def)

lemma withIndex_eq_mem: "d \<in> set (withIndex_eq f v tbl) \<Longrightarrow> d \<in> set tbl"
  by (simp add: withIndex_eq_def)

lemma unique_mem: "unique xs = Inr (Some d) \<Longrightarrow> d \<in> set xs"
  by (cases xs rule: unique.cases) simp_all

lemma first_mem: "first xs = Some d \<Longrightarrow> d \<in> set xs"
  by (cases xs) simp_all

lemma plain_lookup:
  assumes "(case unique (withIndex_eq f v tbl) of
              Inl e \<Rightarrow> Inl e
            | Inr None \<Rightarrow> Inr None
            | Inr (Some x) \<Rightarrow> Inr (Some (strip x))) = Inr (Some r)"
  shows "plain_of tbl r"
proof -
  from assms obtain x where u: "unique (withIndex_eq f v tbl) = Inr (Some x)" and r: "r = strip x"
    by (auto split: sum.splits option.splits)
  from u have "x \<in> set tbl" by (rule withIndex_eq_mem [OF unique_mem])
  with r show ?thesis by (simp add: plain_of_strip)
qed

lemma plain_listing: "r \<in> set (map strip (withIndex_eq f v tbl)) \<Longrightarrow> plain_of tbl r"
  by (auto simp: plain_of_strip dest: withIndex_eq_mem)

lemma plain_scan: "r \<in> set (map strip tbl) \<Longrightarrow> plain_of tbl r"
  by (auto simp: plain_of_strip)

lemma filter_map_strip_active:
  "filter (\<lambda>r. r ''active'' = v) (map strip xs) = map strip (filter (\<lambda>d. d ''active'' = v) xs)"
  by (induction xs) (simp_all add: strip_active)

lemma truthy_boolean: "is_boolean v \<Longrightarrow> truthy v \<longleftrightarrow> v = Some (VBool True)"
  by (cases v rule: truthy.cases) (simp_all add: is_boolean_def)

lemma unique_none_iff: "unique xs = Inr None \<longleftrightarrow> xs = []"
  by (cases xs rule: unique.cases) simp_all

lemma patch_doc_other: "k \<notin> fst ` set fs \<Longrightarrow> patch_doc d fs k = d k"
  by (induction fs arbitrary: d) auto

lemma filter_db_patch_other:
  assumes "k \<notin> fst ` set fs"
  shows "filter (\<lambda>d. d k = v) (db_patch tbl i fs) = db_patch (filter (\<lambda>d. d k = v) tbl) i fs"
  unfolding db_patch_def filter_map
  by (rule arg_cong [where f = "map _"], rule filter_cong [OF refl])
     (simp add: patch_doc_other [OF assms])

lemma strip_deactivated: "strip (d(''active'' \<mapsto> b)) = (strip d)(''active'' \<mapsto> b)"
  by (rule ext) (simp add: strip_def)

lemma length_db_patch: "length (db_patch tbl i fs) = length tbl"
  by (simp add: db_patch_def)

section \<open>updateSubscriptionMetadata\<close>

text \<open>
  Claim C2. When no subscription document has the given \<^verbatim>\<open>stripeSubscriptionId\<close>,
  \<open>updateSubscriptionMetadata\<close> throws (its "not found in database" error) and the store
  is the one it was called on; when exactly one document has it, the mutation succeeds
  and returns \<^verbatim>\<open>null\<close>.
\<close>

theorem updateSubscriptionMetadata_unknown_fails_known_succeeds:
  "(filter (\<lambda>d. d ''stripeSubscriptionId'' = Some (VStr sid)) (subscriptions s) = []
      \<longrightarrow> updateSubscriptionMetadata s sid m org usr =
            (Inl (Error (''Subscription '' @ sid @ '' not found in database'')), s))
   \<and> ((\<exists>d. filter (\<lambda>d. d ''stripeSubscriptionId'' = Some (VStr sid)) (subscriptions s) = [d])
      \<longrightarrow> fst (updateSubscriptionMetadata s sid m org usr) = Inr VNull)"
  by (auto simp: updateSubscriptionMetadata_def withIndex_eq_def)

theorem updateSubscriptionMetadata_unknown_fails_known_succeeds_witness:
  "updateSubscriptionMetadata empty_store ''sub_1'' VNull None None =
     (Inl (Error ''Subscription sub_1 not found in database''), empty_store)
   \<and> fst (updateSubscriptionMetadata (empty_store\<lparr>subscriptions := [sub1]\<rparr>) ''sub_1'' VNull None None)
       = Inr VNull"
  using updateSubscriptionMetadata_unknown_fails_known_succeeds
          [of "''sub_1''" empty_store VNull None None]
        updateSubscriptionMetadata_unknown_fails_known_succeeds
          [of "''sub_1''" "empty_store\<lparr>subscriptions := [sub1]\<rparr>" VNull None None]
  by (simp add: empty_store_def sub1_def)

text \<open>
  Claim C4. For the subscription \<open>d\<close> that has the given id, \<open>updateSubscriptionMetadata\<close>
  writes the three fields \<^verbatim>\<open>metadata\<close>, \<^verbatim>\<open>orgId\<close> and \<^verbatim>\<open>userId\<close> with the argument values:
  an \<^verbatim>\<open>orgId\<close> or \<^verbatim>\<open>userId\<close> left out of the call is removed from the document. Every
  other field of \<open>d\<close> (the system fields too), every other document of the table and
  every other table stay as they were.
\<close>

theorem updateSubscriptionMetadata_writes_three_fields:
  assumes one: "filter (\<lambda>d. d ''stripeSubscriptionId'' = Some (VStr sid)) (subscriptions s) = [d]"
      and ids: "distinct (map (\<lambda>d. d ''_id'') (subscriptions s))"
  shows "let d' = d(''metadata'' \<mapsto> m,
                    ''orgId'' := map_option VStr org,
                    ''userId'' := map_option VStr usr)
         in updateSubscriptionMetadata s sid m org usr =
              (Inr VNull,
               s\<lparr>subscriptions := map (\<lambda>x. if x = d then d' else x) (subscriptions s)\<rparr>)
            \<and> (org = None \<longrightarrow> ''orgId'' \<notin> dom d')
            \<and> (usr = None \<longrightarrow> ''userId'' \<notin> dom d')
            \<and> (\<forall>k. k \<notin> {''metadata'', ''orgId'', ''userId''} \<longrightarrow> d' k = d k)"
proof -
  from one have mem: "d \<in> set (subscriptions s)" by (rule filter_single_mem)
  have "unique (withIndex_eq ''stripeSubscriptionId'' (VStr sid) (subscriptions s)) = Inr (Some d)"
    unfolding withIndex_eq_def one by simp
  then have "updateSubscriptionMetadata s sid m org usr =
              (Inr VNull,
               s\<lparr>subscriptions := map (\<lambda>x. if x = d then d(''metadata'' \<mapsto> m,
                    ''orgId'' := map_option VStr org,
                    ''userId'' := map_option VStr usr) else x) (subscriptions s)\<rparr>)"
    unfolding updateSubscriptionMetadata_def
    by (simp add: db_patch_distinct [OF ids mem])
  then show ?thesis by (simp add: Let_def)
qed

theorem updateSubscriptionMetadata_writes_three_fields_witness:
  "sub1 ''orgId'' = Some (VStr ''org_1'')
   \<and> updateSubscriptionMetadata (empty_store\<lparr>subscriptions := [sub1, sub2]\<rparr>)
         ''sub_1'' (VObj []) None (Some ''user_9'')
       = (Inr VNull,
          empty_store\<lparr>subscriptions :=
            [sub1(''metadata'' \<mapsto> VObj [], ''orgId'' := None, ''userId'' \<mapsto> VStr ''user_9''), sub2]\<rparr>)"
proof -
  have one: "filter (\<lambda>d. d ''stripeSubscriptionId'' = Some (VStr ''sub_1''))
               (subscriptions (empty_store\<lparr>subscriptions := [sub1, sub2]\<rparr>)) = [sub1]"
    by (simp add: sub1_def sub2_def)
  have ids: "distinct (map (\<lambda>d. d ''_id'') (subscriptions (empty_store\<lparr>subscriptions := [sub1, sub2]\<rparr>)))"
    by (simp add: sub1_def sub2_def)
  have "sub1 ''orgId'' = Some (VStr ''org_1'')" by (simp add: sub1_def)
  then show ?thesis
    using updateSubscriptionMetadata_writes_three_fields
        [OF one ids, where m = "VObj []" and org = None and usr = "Some ''user_9''"]
      sub2_neq_sub1
    by (simp add: Let_def)
qed

section \<open>createOrUpdateCustomer\<close>

text \<open>
  Claim C3. \<open>createOrUpdateCustomer\<close> is an upsert keyed by \<^verbatim>\<open>stripeCustomerId\<close>. When no
  customer has the id, a new document is inserted and the id is returned. In a table
  that is keyed by the id, the fields \<^verbatim>\<open>email\<close>, \<^verbatim>\<open>name\<close> and \<^verbatim>\<open>metadata\<close> of the customer
  that has the id are overwritten and the id is returned. The same call run a second
  time returns what the first run returned and leaves the store that the first run
  left. The hypotheses are the three parts of \<open>customers_wf\<close>, which the mutation
  preserves.
\<close>

theorem createOrUpdateCustomer_idempotent_upsert:
  "((\<forall>d\<in>set (customers s). d ''stripeCustomerId'' \<noteq> Some (VStr cid)) \<longrightarrow>
       createOrUpdateCustomer now s cid email name metadata =
         (Inr cid,
          s\<lparr>customers := customers s @
               [[''stripeCustomerId'' \<mapsto> VStr cid]
                  (''email'' := map_option VStr email,
                   ''name'' := map_option VStr name,
                   ''metadata'' := metadata,
                   ''_id'' \<mapsto> VId (nextId s),
                   ''_creationTime'' \<mapsto> VNum now)],
            nextId := Suc (nextId s)\<rparr>))
   \<and> (distinct (map (\<lambda>d. d ''stripeCustomerId'') (customers s))
        \<and> distinct (map (\<lambda>d. d ''_id'') (customers s)) \<longrightarrow>
       (\<forall>d\<in>set (customers s). d ''stripeCustomerId'' = Some (VStr cid) \<longrightarrow>
          createOrUpdateCustomer now s cid email name metadata =
            (Inr cid,
             s\<lparr>customers :=
                  map (\<lambda>x. if x = d
                            then d(''email'' := map_option VStr email,
                                   ''name'' := map_option VStr name,
                                   ''metadata'' := metadata)
                            else x) (customers s)\<rparr>)))
   \<and> (list_all (id_below (nextId s)) (customers s) \<longrightarrow>
       createOrUpdateCustomer now' (snd (createOrUpdateCustomer now s cid email name metadata))
            cid email name metadata
         = createOrUpdateCustomer now s cid email name metadata)"
proof (intro conjI impI ballI)
  assume "\<forall>d\<in>set (customers s). d ''stripeCustomerId'' \<noteq> Some (VStr cid)"
  then have none: "filter (\<lambda>d. d ''stripeCustomerId'' = Some (VStr cid)) (customers s) = []"
    by (simp add: filter_empty_conv)
  show "createOrUpdateCustomer now s cid email name metadata =
         (Inr cid,
          s\<lparr>customers := customers s @
               [[''stripeCustomerId'' \<mapsto> VStr cid]
                  (''email'' := map_option VStr email,
                   ''name'' := map_option VStr name,
                   ''metadata'' := metadata,
                   ''_id'' \<mapsto> VId (nextId s),
                   ''_creationTime'' \<mapsto> VNum now)],
            nextId := Suc (nextId s)\<rparr>)"
    unfolding createOrUpdateCustomer_none [OF none]
    by (simp add: new_doc_def customer_fields_def)
next
  fix d
  assume inv: "distinct (map (\<lambda>d. d ''stripeCustomerId'') (customers s))
                 \<and> distinct (map (\<lambda>d. d ''_id'') (customers s))"
    and mem: "d \<in> set (customers s)" and key: "d ''stripeCustomerId'' = Some (VStr cid)"
  from inv have keyed: "distinct (map (\<lambda>d. d ''stripeCustomerId'') (customers s))"
    and ids: "distinct (map (\<lambda>d. d ''_id'') (customers s))"
    by simp_all
  have one: "filter (\<lambda>x. x ''stripeCustomerId'' = Some (VStr cid)) (customers s) = [d]"
    using filter_key_single [OF keyed mem] by (simp add: key)
  show "createOrUpdateCustomer now s cid email name metadata =
            (Inr cid,
             s\<lparr>customers :=
                  map (\<lambda>x. if x = d
                            then d(''email'' := map_option VStr email,
                                   ''name'' := map_option VStr name,
                                   ''metadata'' := metadata)
                            else x) (customers s)\<rparr>)"
    unfolding createOrUpdateCustomer_one [OF one] db_patch_distinct [OF ids mem] patch_customer_fields
    by (rule refl)
next
  assume "list_all (id_below (nextId s)) (customers s)"
  then have fresh: "\<forall>d\<in>set (customers s). d ''_id'' \<noteq> Some (VId (nextId s))"
    by (rule id_below_fresh)
  show "createOrUpdateCustomer now' (snd (createOrUpdateCustomer now s cid email name metadata))
            cid email name metadata
         = createOrUpdateCustomer now s cid email name metadata"
    unfolding createOrUpdateCustomer_twice [OF fresh] by simp
qed

theorem createOrUpdateCustomer_idempotent_upsert_witness:
  "customers_wf (empty_store\<lparr>customers := [cus1], nextId := 1\<rparr>)
   \<and> createOrUpdateCustomer 7 (empty_store\<lparr>customers := [cus1], nextId := 1\<rparr>)
         ''cus_2'' (Some ''bob@example.com'') None None
       = (Inr ''cus_2'',
          empty_store\<lparr>customers :=
            [cus1, [''stripeCustomerId'' \<mapsto> VStr ''cus_2'', ''email'' \<mapsto> VStr ''bob@example.com'',
                    ''_id'' \<mapsto> VId 1, ''_creationTime'' \<mapsto> VNum 7]], nextId := 2\<rparr>)
   \<and> createOrUpdateCustomer 8
         (empty_store\<lparr>customers :=
            [cus1, [''stripeCustomerId'' \<mapsto> VStr ''cus_2'', ''email'' \<mapsto> VStr ''bob@example.com'',
                    ''_id'' \<mapsto> VId 1, ''_creationTime'' \<mapsto> VNum 7]], nextId := 2\<rparr>)
         ''cus_2'' (Some ''bob@example.com'') None None
       = (Inr ''cus_2'',
          empty_store\<lparr>customers :=
            [cus1, [''stripeCustomerId'' \<mapsto> VStr ''cus_2'', ''email'' \<mapsto> VStr ''bob@example.com'',
                    ''_id'' \<mapsto> VId 1, ''_creationTime'' \<mapsto> VNum 7]], nextId := 2\<rparr>)
   \<and> createOrUpdateCustomer 7 (empty_store\<lparr>customers := [cus1], nextId := 1\<rparr>)
         ''cus_1'' (Some ''bob@example.com'') None None
       = (Inr ''cus_1'',
          empty_store\<lparr>customers := [cus1(''email'' \<mapsto> VStr ''bob@example.com'', ''name'' := None)],
                       nextId := 1\<rparr>)"
proof -
  let ?s = "empty_store\<lparr>customers := [cus1], nextId := 1\<rparr>"
  have wf: "customers_wf ?s"
    by (simp add: customers_wf_def id_below_def cus1_def)
  then have keyed: "distinct (map (\<lambda>d. d ''stripeCustomerId'') (customers ?s))"
    and ids: "distinct (map (\<lambda>d. d ''_id'') (customers ?s))"
    and below: "list_all (id_below (nextId ?s)) (customers ?s)"
    unfolding customers_wf_def by blast+
  have key: "cus1 ''stripeCustomerId'' = Some (VStr ''cus_1'')" by (simp add: cus1_def)
  have nometa: "cus1 ''metadata'' = None" by (simp add: cus1_def)
  have eq: "cus1(''email'' \<mapsto> VStr ''bob@example.com'', ''name'' := None, ''metadata'' := None)
            = cus1(''email'' \<mapsto> VStr ''bob@example.com'', ''name'' := None)"
    by (rule ext) (simp add: nometa)
  note t2 = createOrUpdateCustomer_idempotent_upsert
        [where s = ?s and cid = "''cus_2''" and now = 7 and email = "Some ''bob@example.com''"
           and name = None and metadata = None and now' = 8]
  note t1 = createOrUpdateCustomer_idempotent_upsert
        [where s = ?s and cid = "''cus_1''" and now = 7 and email = "Some ''bob@example.com''"
           and name = None and metadata = None and now' = 8]
  have ins: "createOrUpdateCustomer 7 ?s ''cus_2'' (Some ''bob@example.com'') None None
       = (Inr ''cus_2'',
          empty_store\<lparr>customers :=
            [cus1, [''stripeCustomerId'' \<mapsto> VStr ''cus_2'', ''email'' \<mapsto> VStr ''bob@example.com'',
                    ''_id'' \<mapsto> VId 1, ''_creationTime'' \<mapsto> VNum 7]], nextId := 2\<rparr>)"
    using t2 [THEN conjunct1] key by simp
  have again: "createOrUpdateCustomer 8
                 (snd (createOrUpdateCustomer 7 ?s ''cus_2'' (Some ''bob@example.com'') None None))
                 ''cus_2'' (Some ''bob@example.com'') None None
               = createOrUpdateCustomer 7 ?s ''cus_2'' (Some ''bob@example.com'') None None"
    using t2 [THEN conjunct2, THEN conjunct2] below by blast
  have upd: "createOrUpdateCustomer 7 ?s ''cus_1'' (Some ''bob@example.com'') None None
       = (Inr ''cus_1'',
          empty_store\<lparr>customers := [cus1(''email'' \<mapsto> VStr ''bob@example.com'', ''name'' := None)],
                       nextId := 1\<rparr>)"
    using t1 [THEN conjunct2, THEN conjunct1] keyed ids key by (simp add: eq)
  from again have "createOrUpdateCustomer 8
         (empty_store\<lparr>customers :=
            [cus1, [''stripeCustomerId'' \<mapsto> VStr ''cus_2'', ''email'' \<mapsto> VStr ''bob@example.com'',
                    ''_id'' \<mapsto> VId 1, ''_creationTime'' \<mapsto> VNum 7]], nextId := 2\<rparr>)
         ''cus_2'' (Some ''bob@example.com'') None None
       = (Inr ''cus_2'',
          empty_store\<lparr>customers :=
            [cus1, [''stripeCustomerId'' \<mapsto> VStr ''cus_2'', ''email'' \<mapsto> VStr ''bob@example.com'',
                    ''_id'' \<mapsto> VId 1, ''_creationTime'' \<mapsto> VNum 7]], nextId := 2\<rparr>)"
    unfolding ins by simp
  with wf ins upd show ?thesis by blast
qed

text \<open>
  Claim C10. On an existing customer \<open>d\<close>, \<open>createOrUpdateCustomer\<close> sets \<^verbatim>\<open>email\<close>,
  \<^verbatim>\<open>name\<close> and \<^verbatim>\<open>metadata\<close> to the argument values; an argument left out removes the
  field from the document, whatever it held before.
\<close>

theorem createOrUpdateCustomer_existing_overwrites:
  assumes one: "filter (\<lambda>d. d ''stripeCustomerId'' = Some (VStr cid)) (customers s) = [d]"
      and ids: "distinct (map (\<lambda>d. d ''_id'') (customers s))"
  shows "let d' = d(''email'' := map_option VStr email,
                    ''name'' := map_option VStr name,
                    ''metadata'' := metadata)
         in createOrUpdateCustomer now s cid email name metadata =
              (Inr cid, s\<lparr>customers := map (\<lambda>x. if x = d then d' else x) (customers s)\<rparr>)
            \<and> (email = None \<longrightarrow> ''email'' \<notin> dom d')
            \<and> (name = None \<longrightarrow> ''name'' \<notin> dom d')
            \<and> (metadata = None \<longrightarrow> ''metadata'' \<notin> dom d')"
proof -
  from one have mem: "d \<in> set (customers s)" by (rule filter_single_mem)
  show ?thesis
    unfolding createOrUpdateCustomer_one [OF one] db_patch_distinct [OF ids mem] patch_customer_fields
    by (simp add: Let_def)
qed

theorem createOrUpdateCustomer_existing_overwrites_witness:
  "cus1 ''email'' = Some (VStr ''ann@example.com'')
   \<and> createOrUpdateCustomer 7 (empty_store\<lparr>customers := [cus1], nextId := 1\<rparr>)
         ''cus_1'' None (Some ''Bea'') None
       = (Inr ''cus_1'',
          empty_store\<lparr>customers :=
            [cus1(''email'' := None, ''name'' \<mapsto> VStr ''Bea'', ''metadata'' := None)], nextId := 1\<rparr>)
   \<and> ''email'' \<notin> dom (cus1(''email'' := None, ''name'' \<mapsto> VStr ''Bea'', ''metadata'' := None))"
proof -
  have one: "filter (\<lambda>d. d ''stripeCustomerId'' = Some (VStr ''cus_1''))
               (customers (empty_store\<lparr>customers := [cus1], nextId := 1\<rparr>)) = [cus1]"
    by (simp add: cus1_def)
  have ids: "distinct (map (\<lambda>d. d ''_id'') (customers (empty_store\<lparr>customers := [cus1], nextId := 1\<rparr>)))"
    by simp
  have "cus1 ''email'' = Some (VStr ''ann@example.com'')" by (simp add: cus1_def)
  then show ?thesis
    using createOrUpdateCustomer_existing_overwrites
        [OF one ids, where now = 7 and email = None and name = "Some ''Bea''" and metadata = None]
    by (simp add: Let_def)
qed

section \<open>updateSubscriptionQuantity\<close>

text \<open>
  Claim C1. \<open>updateSubscriptionQuantity\<close> instructs the provider first and runs the local
  mutation only after the provider has accepted the update. When the key is missing (or
  empty), when the provider cannot retrieve the subscription, when the subscription has
  no items, or when the provider refuses the update, the action throws, its trace holds
  no local mutation and the store is the one it was called on. When the local mutation
  runs, the trace is retrieve, item update, mutation, in this order, and the store
  differs from the one the action was called on only if the mutation has run.
\<close>

theorem updateSubscriptionQuantity_remote_first:
  "((key = None \<or> key = Some []) \<longrightarrow>
      updateSubscriptionQuantity StripeSDK internal key db sid q =
        ([], Inl (Error ''STRIPE_SECRET_KEY must be provided as an environment variable''), db))
   \<and> (\<forall>k e. key = Some k \<and> k \<noteq> [] \<and> subscriptions_retrieve (StripeSDK k) sid = Inl e \<longrightarrow>
      updateSubscriptionQuantity StripeSDK internal key db sid q = ([Retrieve sid], Inl e, db))
   \<and> (\<forall>k. key = Some k \<and> k \<noteq> [] \<and> subscriptions_retrieve (StripeSDK k) sid = Inr [] \<longrightarrow>
      updateSubscriptionQuantity StripeSDK internal key db sid q =
        ([Retrieve sid], Inl (Error ''Subscription has no items''), db))
   \<and> (\<forall>k item items e. key = Some k \<and> k \<noteq> []
          \<and> subscriptions_retrieve (StripeSDK k) sid = Inr (item # items)
          \<and> subscriptionItems_update (StripeSDK k) item q = Inl e \<longrightarrow>
      updateSubscriptionQuantity StripeSDK internal key db sid q =
        ([Retrieve sid, ItemUpdate item q], Inl e, db))
   \<and> (\<forall>k item items. key = Some k \<and> k \<noteq> []
          \<and> subscriptions_retrieve (StripeSDK k) sid = Inr (item # items)
          \<and> subscriptionItems_update (StripeSDK k) item q = Inr () \<longrightarrow>
      updateSubscriptionQuantity StripeSDK internal key db sid q =
        ([Retrieve sid, ItemUpdate item q, RunMutation sid q],
         (case internal db sid q of Inl e \<Rightarrow> Inl e | Inr db' \<Rightarrow> Inr VNull),
         (case internal db sid q of Inl e \<Rightarrow> db | Inr db' \<Rightarrow> db')))
   \<and> (\<forall>a b. RunMutation a b \<in> set (fst (updateSubscriptionQuantity StripeSDK internal key db sid q)) \<longrightarrow>
        (\<exists>k item items. key = Some k \<and> k \<noteq> []
          \<and> subscriptions_retrieve (StripeSDK k) sid = Inr (item # items)
          \<and> subscriptionItems_update (StripeSDK k) item q = Inr ()
          \<and> fst (updateSubscriptionQuantity StripeSDK internal key db sid q)
               = [Retrieve sid, ItemUpdate item q, RunMutation sid q]))
   \<and> (snd (snd (updateSubscriptionQuantity StripeSDK internal key db sid q)) \<noteq> db \<longrightarrow>
        RunMutation sid q \<in> set (fst (updateSubscriptionQuantity StripeSDK internal key db sid q)))"
proof (intro conjI)
  show "((key = None \<or> key = Some []) \<longrightarrow>
      updateSubscriptionQuantity StripeSDK internal key db sid q =
        ([], Inl (Error ''STRIPE_SECRET_KEY must be provided as an environment variable''), db))"
    by (auto simp: updateSubscriptionQuantity_def)
  show "(\<forall>k e. key = Some k \<and> k \<noteq> [] \<and> subscriptions_retrieve (StripeSDK k) sid = Inl e \<longrightarrow>
      updateSubscriptionQuantity StripeSDK internal key db sid q = ([Retrieve sid], Inl e, db))"
    by (simp add: updateSubscriptionQuantity_def)
  show "(\<forall>k. key = Some k \<and> k \<noteq> [] \<and> subscriptions_retrieve (StripeSDK k) sid = Inr [] \<longrightarrow>
      updateSubscriptionQuantity StripeSDK internal key db sid q =
        ([Retrieve sid], Inl (Error ''Subscription has no items''), db))"
    by (simp add: updateSubscriptionQuantity_def)
  show "(\<forall>k item items e. key = Some k \<and> k \<noteq> []
          \<and> subscriptions_retrieve (StripeSDK k) sid = Inr (item # items)
          \<and> subscriptionItems_update (StripeSDK k) item q = Inl e \<longrightarrow>
      updateSubscriptionQuantity StripeSDK internal key db sid q =
        ([Retrieve sid, ItemUpdate item q], Inl e, db))"
    by (simp add: updateSubscriptionQuantity_def)
  show "(\<forall>k item items. key = Some k \<and> k \<noteq> []
          \<and> subscriptions_retrieve (StripeSDK k) sid = Inr (item # items)
          \<and> subscriptionItems_update (StripeSDK k) item q = Inr () \<longrightarrow>
      updateSubscriptionQuantity StripeSDK internal key db sid q =
        ([Retrieve sid, ItemUpdate item q, RunMutation sid q],
         (case internal db sid q of Inl e \<Rightarrow> Inl e | Inr db' \<Rightarrow> Inr VNull),
         (case internal db sid q of Inl e \<Rightarrow> db | Inr db' \<Rightarrow> db')))"
    by (simp add: updateSubscriptionQuantity_def split: sum.splits)
  show "(\<forall>a b. RunMutation a b \<in> set (fst (updateSubscriptionQuantity StripeSDK internal key db sid q)) \<longrightarrow>
        (\<exists>k item items. key = Some k \<and> k \<noteq> []
          \<and> subscriptions_retrieve (StripeSDK k) sid = Inr (item # items)
          \<and> subscriptionItems_update (StripeSDK k) item q = Inr ()
          \<and> fst (updateSubscriptionQuantity StripeSDK internal key db sid q)
               = [Retrieve sid, ItemUpdate item q, RunMutation sid q]))"
    by (auto simp: updateSubscriptionQuantity_def split: option.splits sum.splits list.splits if_splits)
  show "(snd (snd (updateSubscriptionQuantity StripeSDK internal key db sid q)) \<noteq> db \<longrightarrow>
        RunMutation sid q \<in> set (fst (updateSubscriptionQuantity StripeSDK internal key db sid q)))"
    by (auto simp: updateSubscriptionQuantity_def split: option.splits sum.splits list.splits if_splits)
qed

theorem updateSubscriptionQuantity_remote_first_witness:
  "updateSubscriptionQuantity sdk_ok set_quantity None (empty_store\<lparr>subscriptions := [sub1]\<rparr>) ''sub_1'' 5
     = ([], Inl (Error ''STRIPE_SECRET_KEY must be provided as an environment variable''),
        empty_store\<lparr>subscriptions := [sub1]\<rparr>)
   \<and> updateSubscriptionQuantity sdk_missing set_quantity (Some ''sk_test_123'')
         (empty_store\<lparr>subscriptions := [sub1]\<rparr>) ''sub_1'' 5
     = ([Retrieve ''sub_1''], Inl (StripeError ''No such subscription''),
        empty_store\<lparr>subscriptions := [sub1]\<rparr>)
   \<and> updateSubscriptionQuantity sdk_no_items set_quantity (Some ''sk_test_123'')
         (empty_store\<lparr>subscriptions := [sub1]\<rparr>) ''sub_1'' 5
     = ([Retrieve ''sub_1''], Inl (Error ''Subscription has no items''),
        empty_store\<lparr>subscriptions := [sub1]\<rparr>)
   \<and> updateSubscriptionQuantity sdk_refuses set_quantity (Some ''sk_test_123'')
         (empty_store\<lparr>subscriptions := [sub1]\<rparr>) ''sub_1'' 5
     = ([Retrieve ''sub_1'', ItemUpdate ''si_1'' 5], Inl (StripeError ''Invalid quantity''),
        empty_store\<lparr>subscriptions := [sub1]\<rparr>)
   \<and> fst (updateSubscriptionQuantity sdk_ok set_quantity (Some ''sk_test_123'')
         (empty_store\<lparr>subscriptions := [sub1]\<rparr>) ''sub_1'' 5)
     = [Retrieve ''sub_1'', ItemUpdate ''si_1'' 5, RunMutation ''sub_1'' 5]"
proof -
  let ?db = "empty_store\<lparr>subscriptions := [sub1]\<rparr>"
  note c1 = updateSubscriptionQuantity_remote_first
      [where key = None and StripeSDK = sdk_ok and internal = set_quantity
         and db = ?db and sid = "''sub_1''" and q = 5, THEN conjunct1]
  note c2 = updateSubscriptionQuantity_remote_first
      [where key = "Some ''sk_test_123''" and StripeSDK = sdk_missing and internal = set_quantity
         and db = ?db and sid = "''sub_1''" and q = 5, THEN conjunct2, THEN conjunct1]
  note c3 = updateSubscriptionQuantity_remote_first
      [where key = "Some ''sk_test_123''" and StripeSDK = sdk_no_items and internal = set_quantity
         and db = ?db and sid = "''sub_1''" and q = 5, THEN conjunct2, THEN conjunct2, THEN conjunct1]
  note c4 = updateSubscriptionQuantity_remote_first
      [where key = "Some ''sk_test_123''" and StripeSDK = sdk_refuses and internal = set_quantity
         and db = ?db and sid = "''sub_1''" and q = 5,
       THEN conjunct2, THEN conjunct2, THEN conjunct2, THEN conjunct1]
  note c5 = updateSubscriptionQuantity_remote_first
      [where key = "Some ''sk_test_123''" and StripeSDK = sdk_ok and internal = set_quantity
         and db = ?db and sid = "''sub_1''" and q = 5,
       THEN conjunct2, THEN conjunct2, THEN conjunct2, THEN conjunct2, THEN conjunct1]
  have "updateSubscriptionQuantity sdk_ok set_quantity None ?db ''sub_1'' 5
     = ([], Inl (Error ''STRIPE_SECRET_KEY must be provided as an environment variable''), ?db)"
    using c1 by simp
  moreover have "updateSubscriptionQuantity sdk_missing set_quantity (Some ''sk_test_123'') ?db ''sub_1'' 5
     = ([Retrieve ''sub_1''], Inl (StripeError ''No such subscription''), ?db)"
    using c2 by (simp add: sdk_missing_def)
  moreover have "updateSubscriptionQuantity sdk_no_items set_quantity (Some ''sk_test_123'') ?db ''sub_1'' 5
     = ([Retrieve ''sub_1''], Inl (Error ''Subscription has no items''), ?db)"
    using c3 by (simp add: sdk_no_items_def)
  moreover have "updateSubscriptionQuantity sdk_refuses set_quantity (Some ''sk_test_123'') ?db ''sub_1'' 5
     = ([Retrieve ''sub_1'', ItemUpdate ''si_1'' 5], Inl (StripeError ''Invalid quantity''), ?db)"
    using c4 by (simp add: sdk_refuses_def)
  moreover have "fst (updateSubscriptionQuantity sdk_ok set_quantity (Some ''sk_test_123'') ?db ''sub_1'' 5)
     = [Retrieve ''sub_1'', ItemUpdate ''si_1'' 5, RunMutation ''sub_1'' 5]"
    using c5 by (simp add: sdk_ok_def)
  ultimately show ?thesis by simp
qed

section \<open>createCheckoutSession\<close>

text \<open>
  Claim C5. A checkout session requested with \<^verbatim>\<open>allowPromotionCodes\<close> and with a list of
  \<^verbatim>\<open>discounts\<close> fails with the error that the two cannot be used together, before
  anything else of the operation runs: no remote call, no local write, the store as it
  was.
\<close>

theorem createCheckoutSession_exclusive_options:
  assumes "allowPromotionCodes = Some True" and "discounts = Some ds"
  shows "createCheckoutSession proceed s allowPromotionCodes discounts =
           ([], Inl (Error ''Cannot use both allowPromotionCodes and discounts''), s)"
  using assms by (simp add: createCheckoutSession_def)

theorem createCheckoutSession_exclusive_options_witness:
  "createCheckoutSession (\<lambda>s. ([''sessions.create''], Inr ''cs_1'', s\<lparr>nextId := 7\<rparr>))
      empty_store (Some True) (Some [''coupon_123''])
     = ([], Inl (Error ''Cannot use both allowPromotionCodes and discounts''), empty_store)"
  using createCheckoutSession_exclusive_options
          [where allowPromotionCodes = "Some True" and discounts = "Some [''coupon_123'']"
             and ds = "[''coupon_123'']" and s = empty_store
             and proceed = "\<lambda>s. ([''sessions.create''], Inr ''cs_1'', s\<lparr>nextId := 7\<rparr>)"]
  by simp

section \<open>Queries\<close>

text \<open>
  Claim C6. After a \<^verbatim>\<open>product.deleted\<close> event for the product \<open>d\<close> with the given
  external id, \<open>getProduct\<close> by that id returns the record of \<open>d\<close> with \<^verbatim>\<open>active\<close> false,
  this record is in the full listing, and the listing has as many records as the table
  had documents. In any store \<open>t\<close>, \<open>listProducts\<close> returns the record of every stored
  product, whatever its \<^verbatim>\<open>active\<close> flag.
\<close>

theorem product_deleted_is_soft_delete:
  assumes one: "filter (\<lambda>x. x ''stripeProductId'' = Some (VStr pid)) (products s) = [d]"
  shows "fst (handleProductDeleted s pid) = Inr ()
     \<and> getProduct (snd (handleProductDeleted s pid)) pid
           = Inr (Some ((strip d)(''active'' \<mapsto> VBool False)))
     \<and> (strip d)(''active'' \<mapsto> VBool False) \<in> set (listProducts (snd (handleProductDeleted s pid)))
     \<and> length (listProducts (snd (handleProductDeleted s pid))) = length (products s)
     \<and> (\<forall>x\<in>set (products t). strip x \<in> set (listProducts t))
     \<and> length (listProducts t) = length (products t)"
proof -
  let ?fs = "[(''active'', Some (VBool False))]"
  let ?s' = "s\<lparr>products := db_patch (products s) (d ''_id'') ?fs\<rparr>"
  have h: "handleProductDeleted s pid = (Inr (), ?s')"
    by (simp add: handleProductDeleted_def withIndex_eq_def one)
  have "filter (\<lambda>x. x ''stripeProductId'' = Some (VStr pid)) (products ?s')
          = db_patch [d] (d ''_id'') ?fs"
    by (simp add: filter_db_patch_other one)
  then have f: "filter (\<lambda>x. x ''stripeProductId'' = Some (VStr pid)) (products ?s')
          = [d(''active'' \<mapsto> VBool False)]"
    by (simp add: db_patch_def)
  then have g: "getProduct ?s' pid = Inr (Some ((strip d)(''active'' \<mapsto> VBool False)))"
    unfolding getProduct_def withIndex_eq_def by (simp add: strip_deactivated)
  have "d(''active'' \<mapsto> VBool False) \<in> set (products ?s')"
    by (rule filter_single_mem [OF f])
  then have m: "(strip d)(''active'' \<mapsto> VBool False) \<in> set (listProducts ?s')"
    unfolding listProducts_def strip_deactivated [symmetric] set_map by (rule imageI)
  have l: "length (listProducts ?s') = length (products s)"
    by (simp add: listProducts_def length_db_patch)
  have a: "\<forall>x\<in>set (products t). strip x \<in> set (listProducts t)"
    by (simp add: listProducts_def)
  have b: "length (listProducts t) = length (products t)"
    by (simp add: listProducts_def)
  from g m l a b show ?thesis unfolding h by simp
qed

theorem product_deleted_is_soft_delete_witness:
  "prod1 ''active'' = Some (VBool True)
   \<and> getProduct (snd (handleProductDeleted catalogue ''prod_1'')) ''prod_1''
         = Inr (Some ((strip prod1)(''active'' \<mapsto> VBool False)))
   \<and> (strip prod1)(''active'' \<mapsto> VBool False)
         \<in> set (listProducts (snd (handleProductDeleted catalogue ''prod_1'')))
   \<and> length (listProducts (snd (handleProductDeleted catalogue ''prod_1''))) = 2"
proof -
  have one: "filter (\<lambda>x. x ''stripeProductId'' = Some (VStr ''prod_1'')) (products catalogue) = [prod1]"
    by (simp add: catalogue_def prod1_def prod2_def)
  have a: "prod1 ''active'' = Some (VBool True)" by (simp add: prod1_def)
  have n: "length (products catalogue) = 2" by (simp add: catalogue_def)
  from a n product_deleted_is_soft_delete [OF one, where t = catalogue]
  show ?thesis by simp
qed

text \<open>
  Claim C7. Every record returned by a query of the component is a plain record of the
  table it was read from: it has no \<^verbatim>\<open>_id\<close> and no \<^verbatim>\<open>_creationTime\<close>, and in every other
  field it is a document of that table. This holds for the point lookups, the full
  listings, the active listings, the listings by a secondary index and the product with
  its prices.
\<close>

theorem queries_return_plain_records:
  "(\<forall>r. getProduct s pid = Inr (Some r) \<longrightarrow> plain_of (products s) r)
   \<and> (\<forall>r\<in>set (listProducts s). plain_of (products s) r)
   \<and> (\<forall>r\<in>set (listActiveProducts s). plain_of (products s) r)
   \<and> (\<forall>r. getPrice s priceId = Inr (Some r) \<longrightarrow> plain_of (prices s) r)
   \<and> (\<forall>r\<in>set (listPrices s). plain_of (prices s) r)
   \<and> (\<forall>r\<in>set (listActivePrices s). plain_of (prices s) r)
   \<and> (\<forall>r\<in>set (listPricesByProduct s pid). plain_of (prices s) r)
   \<and> (\<forall>r\<in>set (listActivePricesByProduct s pid). plain_of (prices s) r)
   \<and> (\<forall>r. getPriceByLookupKey s lookupKey = Inr (Some r) \<longrightarrow> plain_of (prices s) r)
   \<and> (\<forall>p ps. getProductWithPrices s pid = Inr (Some (p, ps)) \<longrightarrow>
         plain_of (products s) p \<and> (\<forall>r\<in>set ps. plain_of (prices s) r))
   \<and> (\<forall>r. getCustomer s cid = Inr (Some r) \<longrightarrow> plain_of (customers s) r)
   \<and> (\<forall>r. getSubscription s sid = Inr (Some r) \<longrightarrow> plain_of (subscriptions s) r)
   \<and> (\<forall>r\<in>set (listSubscriptions s cid). plain_of (subscriptions s) r)
   \<and> (\<forall>r. getSubscriptionByOrgId s org = Some r \<longrightarrow> plain_of (subscriptions s) r)
   \<and> (\<forall>r\<in>set (listSubscriptionsByUserId s usr). plain_of (subscriptions s) r)
   \<and> (\<forall>r. getPayment s piid = Inr (Some r) \<longrightarrow> plain_of (payments s) r)
   \<and> (\<forall>r\<in>set (listPayments s cid). plain_of (payments s) r)
   \<and> (\<forall>r\<in>set (listPaymentsByUserId s usr). plain_of (payments s) r)
   \<and> (\<forall>r\<in>set (listPaymentsByOrgId s org). plain_of (payments s) r)
   \<and> (\<forall>r\<in>set (listInvoices s cid). plain_of (invoices s) r)
   \<and> (\<forall>r\<in>set (listInvoicesByOrgId s org). plain_of (invoices s) r)
   \<and> (\<forall>r\<in>set (listInvoicesByUserId s usr). plain_of (invoices s) r)"
proof (intro conjI)
  show "\<forall>r. getProduct s pid = Inr (Some r) \<longrightarrow> plain_of (products s) r"
    unfolding getProduct_def by (blast intro: plain_lookup)
  show "\<forall>r\<in>set (listProducts s). plain_of (products s) r"
    unfolding listProducts_def by (blast intro: plain_scan)
  show "\<forall>r\<in>set (listActiveProducts s). plain_of (products s) r"
    unfolding listActiveProducts_def by (blast intro: plain_listing)
  show "\<forall>r. getPrice s priceId = Inr (Some r) \<longrightarrow> plain_of (prices s) r"
    unfolding getPrice_def by (blast intro: plain_lookup)
  show "\<forall>r\<in>set (listPrices s). plain_of (prices s) r"
    unfolding listPrices_def by (blast intro: plain_scan)
  show "\<forall>r\<in>set (listActivePrices s). plain_of (prices s) r"
    unfolding listActivePrices_def by (blast intro: plain_listing)
  show "\<forall>r\<in>set (listPricesByProduct s pid). plain_of (prices s) r"
    unfolding listPricesByProduct_def by (blast intro: plain_listing)
  show "\<forall>r\<in>set (listActivePricesByProduct s pid). plain_of (prices s) r"
    unfolding listActivePricesByProduct_def
    by (auto simp: plain_of_strip dest: withIndex_eq_mem)
  show "\<forall>r. getPriceByLookupKey s lookupKey = Inr (Some r) \<longrightarrow> plain_of (prices s) r"
    unfolding getPriceByLookupKey_def by (blast intro: plain_lookup)
  show "\<forall>p ps. getProductWithPrices s pid = Inr (Some (p, ps)) \<longrightarrow>
         plain_of (products s) p \<and> (\<forall>r\<in>set ps. plain_of (prices s) r)"
  proof (intro allI impI)
    fix p ps assume g: "getProductWithPrices s pid = Inr (Some (p, ps))"
    show "plain_of (products s) p \<and> (\<forall>r\<in>set ps. plain_of (prices s) r)"
    proof (cases "unique (withIndex_eq ''stripeProductId'' (VStr pid) (products s))")
      case (Inl e)
      with g show ?thesis by (simp add: getProductWithPrices_def)
    next
      case (Inr found)
      show ?thesis
      proof (cases found)
        case None
        with Inr g show ?thesis by (simp add: getProductWithPrices_def)
      next
        case (Some x)
        with Inr g have p: "p = strip x"
          and ps: "ps = map strip (withIndex_eq ''stripeProductId'' (VStr pid) (prices s))"
          by (simp_all add: getProductWithPrices_def)
        from Inr Some have "unique (withIndex_eq ''stripeProductId'' (VStr pid) (products s)) = Inr (Some x)"
          by simp
        then have "x \<in> set (products s)" by (rule withIndex_eq_mem [OF unique_mem])
        with p have "plain_of (products s) p" by (simp add: plain_of_strip)
        moreover have "\<forall>r\<in>set ps. plain_of (prices s) r"
          unfolding ps by (blast intro: plain_listing)
        ultimately show ?thesis ..
      qed
    qed
  qed
  show "\<forall>r. getCustomer s cid = Inr (Some r) \<longrightarrow> plain_of (customers s) r"
    unfolding getCustomer_def by (blast intro: plain_lookup)
  show "\<forall>r. getSubscription s sid = Inr (Some r) \<longrightarrow> plain_of (subscriptions s) r"
    unfolding getSubscription_def by (blast intro: plain_lookup)
  show "\<forall>r\<in>set (listSubscriptions s cid). plain_of (subscriptions s) r"
    unfolding listSubscriptions_def by (blast intro: plain_listing)
  show "\<forall>r. getSubscriptionByOrgId s org = Some r \<longrightarrow> plain_of (subscriptions s) r"
    unfolding getSubscriptionByOrgId_def
    by (auto simp: plain_of_strip split: option.splits dest!: first_mem withIndex_eq_mem)
  show "\<forall>r\<in>set (listSubscriptionsByUserId s usr). plain_of (subscriptions s) r"
    unfolding listSubscriptionsByUserId_def by (blast intro: plain_listing)
  show "\<forall>r. getPayment s piid = Inr (Some r) \<longrightarrow> plain_of (payments s) r"
    unfolding getPayment_def by (blast intro: plain_lookup)
  show "\<forall>r\<in>set (listPayments s cid). plain_of (payments s) r"
    unfolding listPayments_def by (blast intro: plain_listing)
  show "\<forall>r\<in>set (listPaymentsByUserId s usr). plain_of (payments s) r"
    unfolding listPaymentsByUserId_def by (blast intro: plain_listing)
  show "\<forall>r\<in>set (listPaymentsByOrgId s org). plain_of (payments s) r"
    unfolding listPaymentsByOrgId_def by (blast intro: plain_listing)
  show "\<forall>r\<in>set (listInvoices s cid). plain_of (invoices s) r"
    unfolding listInvoices_def by (blast intro: plain_listing)
  show "\<forall>r\<in>set (listInvoicesByOrgId s org). plain_of (invoices s) r"
    unfolding listInvoicesByOrgId_def by (blast intro: plain_listing)
  show "\<forall>r\<in>set (listInvoicesByUserId s usr). plain_of (invoices s) r"
    unfolding listInvoicesByUserId_def by (blast intro: plain_listing)
qed

theorem queries_return_plain_records_witness:
  "getProduct catalogue ''prod_1'' = Inr (Some (strip prod1))
   \<and> plain_of (products catalogue) (strip prod1)
   \<and> listPricesByProduct catalogue ''prod_1'' = [strip price1, strip price2]
   \<and> plain_of (prices catalogue) (strip price2)"
proof -
  have g: "getProduct catalogue ''prod_1'' = Inr (Some (strip prod1))"
    by (simp add: getProduct_def withIndex_eq_def catalogue_def prod1_def prod2_def)
  have l: "listPricesByProduct catalogue ''prod_1'' = [strip price1, strip price2]"
    by (simp add: listPricesByProduct_def withIndex_eq_def catalogue_def price1_def price2_def)
  note all = queries_return_plain_records [where s = catalogue and pid = "''prod_1''"]
  from all have "\<forall>r. getProduct catalogue ''prod_1'' = Inr (Some r) \<longrightarrow> plain_of (products catalogue) r"
    by (rule conjunct1)
  with g have p: "plain_of (products catalogue) (strip prod1)" by simp
  have "\<forall>r\<in>set (listPricesByProduct catalogue ''prod_1''). plain_of (prices catalogue) r"
    by (rule all [THEN conjunct2, THEN conjunct2, THEN conjunct2, THEN conjunct2, THEN conjunct2,
                  THEN conjunct2, THEN conjunct1])
  then have q: "plain_of (prices catalogue) (strip price2)" by (simp add: l)
  from g p l q show ?thesis by simp
qed

text \<open>
  Claim C8. \<open>listActiveProducts\<close> returns the records of \<open>listProducts\<close> whose \<^verbatim>\<open>active\<close>
  flag is true, and, in a table of prices whose \<^verbatim>\<open>active\<close> field is a boolean as the
  schema declares it, \<open>listActivePricesByProduct\<close> returns the records of
  \<open>listPricesByProduct\<close> whose \<^verbatim>\<open>active\<close> flag is true. The listings are equal as lists,
  so they have the same elements in the same order.
\<close>

theorem active_listings_filter_full_listings:
  "listActiveProducts s = filter (\<lambda>r. r ''active'' = Some (VBool True)) (listProducts s)
   \<and> (list_all (\<lambda>d. is_boolean (d ''active'')) (prices s) \<longrightarrow>
        listActivePricesByProduct s pid =
          filter (\<lambda>r. r ''active'' = Some (VBool True)) (listPricesByProduct s pid))"
proof (intro conjI impI)
  show "listActiveProducts s = filter (\<lambda>r. r ''active'' = Some (VBool True)) (listProducts s)"
    by (simp add: listActiveProducts_def listProducts_def withIndex_eq_def filter_map_strip_active)
next
  assume "list_all (\<lambda>d. is_boolean (d ''active'')) (prices s)"
  then have b: "\<And>d. d \<in> set (prices s) \<Longrightarrow> is_boolean (d ''active'')"
    by (simp add: list_all_iff)
  have "filter (\<lambda>price. truthy (price ''active'')) (withIndex_eq ''stripeProductId'' (VStr pid) (prices s))
        = filter (\<lambda>d. d ''active'' = Some (VBool True)) (withIndex_eq ''stripeProductId'' (VStr pid) (prices s))"
  proof (rule filter_cong [OF refl])
    fix d assume "d \<in> set (withIndex_eq ''stripeProductId'' (VStr pid) (prices s))"
    then have "d \<in> set (prices s)" by (rule withIndex_eq_mem)
    then show "truthy (d ''active'') = (d ''active'' = Some (VBool True))"
      by (simp add: b truthy_boolean)
  qed
  then show "listActivePricesByProduct s pid =
          filter (\<lambda>r. r ''active'' = Some (VBool True)) (listPricesByProduct s pid)"
    by (simp add: listActivePricesByProduct_def listPricesByProduct_def filter_map_strip_active)
qed

theorem active_listings_filter_full_listings_witness:
  "list_all (\<lambda>d. is_boolean (d ''active'')) (prices catalogue)
   \<and> listProducts catalogue = [strip prod1, strip prod2]
   \<and> listActiveProducts catalogue = [strip prod1]
   \<and> listPricesByProduct catalogue ''prod_1'' = [strip price1, strip price2]
   \<and> listActivePricesByProduct catalogue ''prod_1'' = [strip price1]"
proof -
  have b: "list_all (\<lambda>d. is_boolean (d ''active'')) (prices catalogue)"
    by (simp add: catalogue_def price1_def price2_def is_boolean_def)
  have lp: "listProducts catalogue = [strip prod1, strip prod2]"
    by (simp add: listProducts_def catalogue_def)
  have lq: "listPricesByProduct catalogue ''prod_1'' = [strip price1, strip price2]"
    by (simp add: listPricesByProduct_def withIndex_eq_def catalogue_def price1_def price2_def)
  have a1: "strip prod1 ''active'' = Some (VBool True)" by (simp add: strip_def prod1_def)
  have a2: "strip prod2 ''active'' \<noteq> Some (VBool True)" by (simp add: strip_def prod2_def)
  have a3: "strip price1 ''active'' = Some (VBool True)" by (simp add: strip_def price1_def)
  have a4: "strip price2 ''active'' \<noteq> Some (VBool True)" by (simp add: strip_def price2_def)
  note t = active_listings_filter_full_listings [where s = catalogue and pid = "''prod_1''"]
  from t have "listActiveProducts catalogue = [strip prod1]"
    by (simp add: lp a1 a2)
  moreover from t b have "listActivePricesByProduct catalogue ''prod_1'' = [strip price1]"
    by (simp add: lq a3 a4)
  ultimately show ?thesis using b lp lq by simp
qed

text \<open>
  Claim C9. \<open>getProductWithPrices\<close> returns \<^verbatim>\<open>null\<close> exactly when no product has the
  given id. In a table of products keyed by \<^verbatim>\<open>stripeProductId\<close>, it otherwise returns the
  product with that id, stripped, with the stripped prices whose \<^verbatim>\<open>stripeProductId\<close> is
  the given id, active or not; whenever it returns prices, they are the list that
  \<open>listPricesByProduct\<close> returns for the id.
\<close>

theorem getProductWithPrices_null_iff_unknown:
  "(getProductWithPrices s pid = Inr None \<longleftrightarrow>
      (\<forall>d\<in>set (products s). d ''stripeProductId'' \<noteq> Some (VStr pid)))
   \<and> (distinct (map (\<lambda>d. d ''stripeProductId'') (products s)) \<longrightarrow>
        (\<forall>d\<in>set (products s). d ''stripeProductId'' = Some (VStr pid) \<longrightarrow>
           getProductWithPrices s pid =
             Inr (Some (strip d,
                        map strip (filter (\<lambda>p. p ''stripeProductId'' = Some (VStr pid)) (prices s))))))
   \<and> (\<forall>p ps. getProductWithPrices s pid = Inr (Some (p, ps)) \<longrightarrow> ps = listPricesByProduct s pid)"
proof (intro conjI impI ballI allI)
  have "getProductWithPrices s pid = Inr None \<longleftrightarrow>
          unique (withIndex_eq ''stripeProductId'' (VStr pid) (products s)) = Inr None"
    by (simp add: getProductWithPrices_def split: sum.splits option.splits)
  also have "\<dots> \<longleftrightarrow> filter (\<lambda>d. d ''stripeProductId'' = Some (VStr pid)) (products s) = []"
    by (simp only: unique_none_iff withIndex_eq_def)
  also have "\<dots> \<longleftrightarrow> (\<forall>d\<in>set (products s). d ''stripeProductId'' \<noteq> Some (VStr pid))"
    by (simp add: filter_empty_conv)
  finally show "getProductWithPrices s pid = Inr None \<longleftrightarrow>
      (\<forall>d\<in>set (products s). d ''stripeProductId'' \<noteq> Some (VStr pid))" .
next
  fix d
  assume keyed: "distinct (map (\<lambda>d. d ''stripeProductId'') (products s))"
    and mem: "d \<in> set (products s)" and key: "d ''stripeProductId'' = Some (VStr pid)"
  have "filter (\<lambda>x. x ''stripeProductId'' = Some (VStr pid)) (products s) = [d]"
    using filter_key_single [OF keyed mem] by (simp add: key)
  then show "getProductWithPrices s pid =
             Inr (Some (strip d,
                        map strip (filter (\<lambda>p. p ''stripeProductId'' = Some (VStr pid)) (prices s))))"
    by (simp add: getProductWithPrices_def withIndex_eq_def)
next
  fix p ps assume "getProductWithPrices s pid = Inr (Some (p, ps))"
  then show "ps = listPricesByProduct s pid"
    by (simp add: getProductWithPrices_def listPricesByProduct_def split: sum.splits option.splits)
qed

theorem getProductWithPrices_null_iff_unknown_witness:
  "distinct (map (\<lambda>d. d ''stripeProductId'') (products catalogue))
   \<and> getProductWithPrices catalogue ''prod_1'' = Inr (Some (strip prod1, [strip price1, strip price2]))
   \<and> listPricesByProduct catalogue ''prod_1'' = [strip price1, strip price2]
   \<and> getProductWithPrices catalogue ''prod_9'' = Inr None"
proof -
  have keyed: "distinct (map (\<lambda>d. d ''stripeProductId'') (products catalogue))"
    by (simp add: catalogue_def prod1_def prod2_def)
  have mem: "prod1 \<in> set (products catalogue)" by (simp add: catalogue_def)
  have key: "prod1 ''stripeProductId'' = Some (VStr ''prod_1'')" by (simp add: prod1_def)
  have none: "\<forall>d\<in>set (products catalogue). d ''stripeProductId'' \<noteq> Some (VStr ''prod_9'')"
    by (simp add: catalogue_def prod1_def prod2_def)
  have f: "filter (\<lambda>p. p ''stripeProductId'' = Some (VStr ''prod_1'')) (prices catalogue) = [price1, price2]"
    by (simp add: catalogue_def price1_def price2_def)
  note t1 = getProductWithPrices_null_iff_unknown [where s = catalogue and pid = "''prod_1''"]
  note t9 = getProductWithPrices_null_iff_unknown [where s = catalogue and pid = "''prod_9''"]
  from t1 keyed mem key have g: "getProductWithPrices catalogue ''prod_1'' =
      Inr (Some (strip prod1, map strip (filter (\<lambda>p. p ''stripeProductId'' = Some (VStr ''prod_1'')) (prices catalogue))))"
    by blast
  then have g': "getProductWithPrices catalogue ''prod_1'' = Inr (Some (strip prod1, [strip price1, strip price2]))"
    by (simp add: f)
  with t1 have l: "listPricesByProduct catalogue ''prod_1'' = [strip price1, strip price2]"
    by simp
  from t9 none have n: "getProductWithPrices catalogue ''prod_9'' = Inr None" by blast
  from keyed g' l n show ?thesis by simp
qed

end
